theory Spec2Isabelle
  imports Main "HOL-Library.Word"
begin

section \<open>The token vocabulary of nyan (\<^verbatim>\<open>nyan/token.h\<close>)\<close>

subsection \<open>Token types\<close>

text \<open>
  \<^verbatim>\<open>enum class token_type\<close>, with its 29 enumerators in the order of the header.
  \<^verbatim>\<open>INF\<close> and \<^verbatim>\<open>INT\<close> are notation of HOL (infimum and intersection), so these two
  enumerators carry the suffix \<open>_tok\<close>.
\<close>

datatype token_type =
    AS
  | AT
  | BANG
  | COLON
  | COMMA
  | DEDENT
  | DOT
  | ENDFILE
  | ENDLINE
  | ELLIPSIS
  | FLOAT
  | FROM
  | ID
  | IMPORT
  | INDENT
  | INF_tok
  | INT_tok
  | INVALID
  | LANGLE
  | LBRACE
  | LBRACKET
  | LPAREN
  | OPERATOR
  | PASS
  | RANGLE
  | RBRACE
  | RBRACKET
  | RPAREN
  | STRING

text \<open>\<^verbatim>\<open>enum class bracket_type\<close>.\<close>

datatype bracket_type = PAREN | ANGLE | BRACKET | BRACE

text \<open>The enumerators of \<^verbatim>\<open>token_type\<close>, listed in declaration order.\<close>

definition all_token_types :: "token_type list" where
  "all_token_types =
    [AS, AT, BANG, COLON, COMMA, DEDENT, DOT, ENDFILE, ENDLINE, ELLIPSIS,
     FLOAT, FROM, ID, IMPORT, INDENT, INF_tok, INT_tok, INVALID, LANGLE, LBRACE,
     LBRACKET, LPAREN, OPERATOR, PASS, RANGLE, RBRACE, RBRACKET, RPAREN, STRING]"

subsection \<open>\<^verbatim>\<open>token_type_str\<close>\<close>

text \<open>
  The single quote character, which a HOL string literal cannot hold: the label
  \<^verbatim>\<open>"'<'"\<close> of the source is the list \<open>[sq, CHR ''<'', sq]\<close>.
\<close>

abbreviation sq :: char where
  "sq \<equiv> CHR 0x27"

text \<open>
  The \<^verbatim>\<open>switch\<close> of \<^verbatim>\<open>token_type_str\<close>: each \<^verbatim>\<open>case\<close> returns its label
  (\<open>Some\<close>); a value that no \<^verbatim>\<open>case\<close> matches leaves the switch (\<open>None\<close>). The cases
  stand in the order of the source.
\<close>

definition token_type_str_switch :: "token_type \<Rightarrow> string option" where
  "token_type_str_switch ty =
    (case ty of
       AS \<Rightarrow> Some ''as''
     | AT \<Rightarrow> Some ''@''
     | BANG \<Rightarrow> Some ''!''
     | COLON \<Rightarrow> Some ''colon''
     | COMMA \<Rightarrow> Some ''comma''
     | DEDENT \<Rightarrow> Some ''dedentation''
     | DOT \<Rightarrow> Some ''dot''
     | ELLIPSIS \<Rightarrow> Some ''ellipsis''
     | ENDFILE \<Rightarrow> Some ''end of file''
     | ENDLINE \<Rightarrow> Some ''end of line''
     | FLOAT \<Rightarrow> Some ''float''
     | FROM \<Rightarrow> Some ''from''
     | ID \<Rightarrow> Some ''identifier''
     | IMPORT \<Rightarrow> Some ''import''
     | INDENT \<Rightarrow> Some ''indentation''
     | INF_tok \<Rightarrow> Some ''inf''
     | INT_tok \<Rightarrow> Some ''int''
     | INVALID \<Rightarrow> Some ''invalid''
     | LANGLE \<Rightarrow> Some [sq, CHR ''<'', sq]
     | LBRACE \<Rightarrow> Some [sq, CHR ''{'', sq]
     | LBRACKET \<Rightarrow> Some [sq, CHR ''['', sq]
     | LPAREN \<Rightarrow> Some [sq, CHR ''('', sq]
     | OPERATOR \<Rightarrow> Some ''operator''
     | PASS \<Rightarrow> Some ''pass''
     | RANGLE \<Rightarrow> Some [sq, CHR ''>'', sq]
     | RBRACE \<Rightarrow> Some [sq, CHR ''}'', sq]
     | RBRACKET \<Rightarrow> Some [sq, CHR '']'', sq]
     | RPAREN \<Rightarrow> Some [sq, CHR '')'', sq]
     | STRING \<Rightarrow> Some ''string'')"

text \<open>The label returned after the switch, when no case has returned.\<close>

definition unhandled_label :: string where
  "unhandled_label = ''unhandled token_type''"

text \<open>\<^verbatim>\<open>token_type_str\<close>: the switch, then the trailing \<^verbatim>\<open>return\<close>.\<close>

definition token_type_str :: "token_type \<Rightarrow> string" where
  "token_type_str ty =
    (case token_type_str_switch ty of
       Some label \<Rightarrow> label
     | None \<Rightarrow> unhandled_label)"

text \<open>The 29 labels that the cases of the switch return, in the order of the source.\<close>

definition switch_labels :: "string list" where
  "switch_labels =
    [''as'', ''@'', ''!'', ''colon'', ''comma'', ''dedentation'', ''dot'', ''ellipsis'',
     ''end of file'', ''end of line'', ''float'', ''from'', ''identifier'', ''import'',
     ''indentation'', ''inf'', ''int'', ''invalid'',
     [sq, CHR ''<'', sq], [sq, CHR ''{'', sq], [sq, CHR ''['', sq], [sq, CHR ''('', sq],
     ''operator'', ''pass'',
     [sq, CHR ''>'', sq], [sq, CHR ''}'', sq], [sq, CHR '']'', sq], [sq, CHR '')'', sq],
     ''string'']"

subsection \<open>\<^verbatim>\<open>token_needs_payload\<close>\<close>

text \<open>Six cases fall through to \<^verbatim>\<open>return true\<close>; \<^verbatim>\<open>default\<close> returns false.\<close>

definition token_needs_payload :: "token_type \<Rightarrow> bool" where
  "token_needs_payload ty =
    (case ty of
       FLOAT \<Rightarrow> True
     | ID \<Rightarrow> True
     | INF_tok \<Rightarrow> True
     | INT_tok \<Rightarrow> True
     | OPERATOR \<Rightarrow> True
     | STRING \<Rightarrow> True
     | _ \<Rightarrow> False)"

subsection \<open>The wording of the specification for punctuation labels\<close>

text \<open>
  The specification says that a structural token renders as its punctuation glyph in
  single quotes. \<open>single_quoted\<close> builds that rendering from a glyph, and
  \<open>is_single_quoted\<close> recognises a text of that shape (a non-empty text between two
  single quotes). Both follow the specification's words, not the source.
\<close>

definition single_quoted :: "string \<Rightarrow> string" where
  "single_quoted glyph = sq # glyph @ [sq]"

definition is_single_quoted :: "string \<Rightarrow> bool" where
  "is_single_quoted s \<longleftrightarrow> 2 < length s \<and> hd s = sq \<and> last s = sq"

section \<open>Tokens\<close>

subsection \<open>Location\<close>

text \<open>
  Modelled from the spec: \<^verbatim>\<open>Location\<close> is declared in \<^verbatim>\<open>location.h\<close>, which is not
  among the sources. The specification gives it as a plain value record: a reference to
  the originating file, the line number, the column offset and the length of the lexeme.
  These are the four arguments that both constructors of \<^verbatim>\<open>Token\<close> take
  (\<^verbatim>\<open>const std::shared_ptr<File> &file, int line, int line_offset, int length\<close>). The
  file reference is a type parameter; an \<^verbatim>\<open>int\<close> is a 32-bit word.
\<close>

record 'f Location =
  "file" :: "'f"
  line :: "32 word"
  line_offset :: "32 word"
  length_loc :: "32 word"

subsection \<open>The class \<^verbatim>\<open>Token\<close>\<close>

text \<open>
  The data members of \<^verbatim>\<open>class Token\<close>, as \<^verbatim>\<open>token.h\<close> declares them: the public
  \<^verbatim>\<open>Location location\<close> and \<^verbatim>\<open>token_type type\<close>, and the protected
  \<^verbatim>\<open>std::string value\<close>, the payload. The payload is a string, not an optional string.
\<close>

record 'f Token =
  location :: "'f Location"
  type :: token_type
  "value" :: string

text \<open>
  \<^verbatim>\<open>token.h\<close> declares the constructors and the observers of \<^verbatim>\<open>Token\<close>; their
  bodies are in \<^verbatim>\<open>token.cpp\<close>, which is not among the sources. The definitions below
  take the signatures from the header and the behaviour from the specification, for
  the two constructors that take a location and a category and for the observers
  \<^verbatim>\<open>get()\<close>, \<^verbatim>\<open>exists()\<close>, \<^verbatim>\<open>is_endmarker()\<close> and \<^verbatim>\<open>is_content()\<close>.
\<close>

text \<open>
  Modelled from the spec: the error of a construction whose category does not match the
  constructor (section 7, contract violation).
\<close>

datatype error = ContractViolation

text \<open>
  Modelled from the spec: the body of
  \<^verbatim>\<open>Token(file, line, line_offset, length, type)\<close> is missing. Section 4.2, construct
  (no payload): the precondition is that the category requires no payload; violating it
  fails fast with a contract violation; the result is a token with empty payload.
\<close>

definition Token_no_payload ::
  "'f \<Rightarrow> 32 word \<Rightarrow> 32 word \<Rightarrow> 32 word \<Rightarrow> token_type \<Rightarrow> error + 'f Token" where
  "Token_no_payload f ln off len ty =
    (if token_needs_payload ty then Inl ContractViolation
     else Inr \<lparr>location = \<lparr>file = f, line = ln, line_offset = off, length_loc = len\<rparr>,
               type = ty, value = []\<rparr>)"

text \<open>
  Modelled from the spec: the body of
  \<^verbatim>\<open>Token(file, line, line_offset, length, type, value)\<close> is missing. Section 4.2,
  construct (with payload): the precondition is that the category requires a payload,
  with the same failure policy; the token stores the text it is given.
\<close>

definition Token_with_payload ::
  "'f \<Rightarrow> 32 word \<Rightarrow> 32 word \<Rightarrow> 32 word \<Rightarrow> token_type \<Rightarrow> string \<Rightarrow> error + 'f Token" where
  "Token_with_payload f ln off len ty v =
    (if \<not> token_needs_payload ty then Inl ContractViolation
     else Inr \<lparr>location = \<lparr>file = f, line = ln, line_offset = off, length_loc = len\<rparr>,
               type = ty, value = v\<rparr>)"

text \<open>
  Modelled from the spec: the body of \<^verbatim>\<open>get()\<close> is missing. Section 4.2, payload():
  returns the stored payload (the empty string when the token has none).
\<close>

definition get :: "'f Token \<Rightarrow> string" where
  "get t = value t"

text \<open>
  Modelled from the spec: the body of \<^verbatim>\<open>exists()\<close> is missing. Section 4.2,
  has_payload(): true iff this instance carries a payload, equivalently iff it was built
  via the payload constructor, equivalently iff the category required a payload at
  construction. The category of a token is fixed at construction, so the answer is read
  from it; the text itself does not decide, and a token built from the empty text by
  the payload constructor has a payload.
\<close>

definition exists :: "'f Token \<Rightarrow> bool" where
  "exists t \<longleftrightarrow> token_needs_payload (type t)"

text \<open>
  Modelled from the spec: the body of \<^verbatim>\<open>is_endmarker()\<close> is missing. Section 4.2,
  is_end_marker(): true iff the category is ENDLINE or ENDFILE.
\<close>

definition is_endmarker :: "'f Token \<Rightarrow> bool" where
  "is_endmarker t =
    (case type t of
       ENDFILE \<Rightarrow> True
     | ENDLINE \<Rightarrow> True
     | _ \<Rightarrow> False)"

text \<open>
  Modelled from the spec: the body of \<^verbatim>\<open>is_content()\<close> is missing. Section 4.2,
  is_content(): a subset of the content-bearing kinds that holds at least ID and STRING.
  Section 9 leaves open whether FLOAT, INF, INT and OPERATOR belong to it: that decision
  of the grammar is the parameter \<open>grammar\<close>.
\<close>

definition is_content :: "(token_type \<Rightarrow> bool) \<Rightarrow> 'f Token \<Rightarrow> bool" where
  "is_content grammar t =
    (case type t of
       ID \<Rightarrow> True
     | STRING \<Rightarrow> True
     | FLOAT \<Rightarrow> grammar FLOAT
     | INF_tok \<Rightarrow> grammar INF_tok
     | INT_tok \<Rightarrow> grammar INT_tok
     | OPERATOR \<Rightarrow> grammar OPERATOR
     | _ \<Rightarrow> False)"

section \<open>Properties of the taxonomy\<close>

lemma token_type_UNIV: "(UNIV :: token_type set) = set all_token_types"
proof -
  have "ty \<in> set all_token_types" for ty
    by (cases ty) (simp_all add: all_token_types_def)
  then show ?thesis by blast
qed

lemma all_token_types_distinct: "distinct all_token_types"
  by (simp add: all_token_types_def)

lemma all_token_types_length: "length all_token_types = 29"
  by (simp add: all_token_types_def)

text \<open>
  Claim C1. \<^verbatim>\<open>token_needs_payload\<close> is true exactly for the six categories FLOAT, ID,
  INF, INT, OPERATOR and STRING, and false for every other category.
\<close>

theorem token_needs_payload_iff:
  "token_needs_payload c \<longleftrightarrow> c \<in> {FLOAT, ID, INF_tok, INT_tok, OPERATOR, STRING}"
  by (cases c) (simp_all add: token_needs_payload_def)

lemma token_type_card: "card (UNIV :: token_type set) = 29"
  unfolding token_type_UNIV
  by (simp add: distinct_card all_token_types_distinct all_token_types_length)

lemma switch_labels_length: "length switch_labels = 29"
  by (simp add: switch_labels_def)

lemma switch_labels_distinct: "distinct switch_labels"
  by (simp add: switch_labels_def)

lemma unhandled_not_a_case_label: "unhandled_label \<notin> set switch_labels"
  by (simp add: switch_labels_def unhandled_label_def)

lemma switch_returns: "\<exists>label. token_type_str_switch c = Some label \<and> label \<in> set switch_labels"
  by (cases c) (simp_all add: token_type_str_switch_def switch_labels_def)

text \<open>
  Claim C5, as the code has it. The eight bracket categories render as their glyph in
  single quotes. AT and BANG render as the bare glyph, without quotes. COLON, COMMA, DOT
  and ELLIPSIS render as the English word for the mark. The keywords AS, FROM, IMPORT and
  PASS render as their lowercase spelling, and INVALID renders as \<open>invalid\<close>.
\<close>

theorem token_type_str_labels:
  "token_type_str LANGLE = single_quoted ''<'' \<and>
   token_type_str RANGLE = single_quoted ''>'' \<and>
   token_type_str LBRACE = single_quoted ''{'' \<and>
   token_type_str RBRACE = single_quoted ''}'' \<and>
   token_type_str LBRACKET = single_quoted ''['' \<and>
   token_type_str RBRACKET = single_quoted '']'' \<and>
   token_type_str LPAREN = single_quoted ''('' \<and>
   token_type_str RPAREN = single_quoted '')'' \<and>
   token_type_str AT = ''@'' \<and>
   token_type_str BANG = ''!'' \<and>
   token_type_str COLON = ''colon'' \<and>
   token_type_str COMMA = ''comma'' \<and>
   token_type_str DOT = ''dot'' \<and>
   token_type_str ELLIPSIS = ''ellipsis'' \<and>
   token_type_str AS = ''as'' \<and>
   token_type_str FROM = ''from'' \<and>
   token_type_str IMPORT = ''import'' \<and>
   token_type_str PASS = ''pass'' \<and>
   token_type_str INVALID = ''invalid''"
  by (simp add: token_type_str_def token_type_str_switch_def single_quoted_def)

text \<open>
  Claim C5 as stated fails: the label of AT is the bare glyph \<open>@\<close>, not the glyph in
  single quotes, and the label of COLON is the word \<open>colon\<close>, which is no text in single
  quotes at all.
\<close>

theorem token_type_str_punctuation_counterexample:
  "token_type_str AT = ''@'' \<and>
   token_type_str AT \<noteq> single_quoted ''@'' \<and>
   token_type_str COLON = ''colon'' \<and>
   \<not> is_single_quoted (token_type_str COLON)"
  by (simp add: token_type_str_def token_type_str_switch_def single_quoted_def
      is_single_quoted_def)

text \<open>
  Claim C6. \<^verbatim>\<open>token_type_str\<close> is defined on every category, INVALID included, and the
  label it returns is never the empty string.
\<close>

theorem token_type_str_nonempty:
  "token_type_str c \<noteq> [] \<and> 0 < length (token_type_str c)"
  by (cases c) (simp_all add: token_type_str_def token_type_str_switch_def)

text \<open>
  Claim C9. On each of the 29 enumerators a case of the switch returns: the result is one
  of the 29 labels of the cases, and it is never the label of the trailing return, which
  no enumerator reaches.
\<close>

theorem token_type_str_fallback_unreachable:
  "token_type_str_switch c \<noteq> None \<and>
   token_type_str c \<in> set switch_labels \<and>
   token_type_str c \<noteq> unhandled_label \<and>
   card (UNIV :: token_type set) = 29 \<and>
   length switch_labels = 29"
proof -
  obtain label where sw: "token_type_str_switch c = Some label"
    and mem: "label \<in> set switch_labels"
    using switch_returns by blast
  have res: "token_type_str c = label"
    by (simp add: token_type_str_def sw)
  have "label \<noteq> unhandled_label"
    using mem unhandled_not_a_case_label by blast
  with sw mem res show ?thesis
    by (simp add: token_type_card switch_labels_length)
qed

section \<open>Properties of tokens\<close>

subsection \<open>Construction\<close>

lemma Token_no_payload_Inr:
  "Token_no_payload f ln off len ty = Inr t \<longleftrightarrow>
     \<not> token_needs_payload ty \<and>
     t = \<lparr>location = \<lparr>file = f, line = ln, line_offset = off, length_loc = len\<rparr>,
          type = ty, value = []\<rparr>"
  by (auto simp: Token_no_payload_def)

lemma Token_with_payload_Inr:
  "Token_with_payload f ln off len ty v = Inr t \<longleftrightarrow>
     token_needs_payload ty \<and>
     t = \<lparr>location = \<lparr>file = f, line = ln, line_offset = off, length_loc = len\<rparr>,
          type = ty, value = v\<rparr>"
  by (auto simp: Token_with_payload_def)

text \<open>For each category exactly one of the two constructors builds a token.\<close>

lemma one_constructor_per_category:
  "(\<exists>t. Token_no_payload f ln off len ty = Inr t) \<noteq>
   (\<exists>t. Token_with_payload f ln off len ty v = Inr t)"
  by (simp add: Token_no_payload_Inr Token_with_payload_Inr)

text \<open>The scenarios of section 8 of the specification.\<close>

lemma scenario_ID_foo:
  "Token_with_payload f ln off len ID ''foo'' = Inr t \<Longrightarrow>
     exists t \<and> get t = ''foo'' \<and> \<not> is_endmarker t"
  by (auto simp: Token_with_payload_Inr exists_def get_def is_endmarker_def)

lemma scenario_LPAREN:
  "Token_no_payload f ln off len LPAREN = Inr t \<Longrightarrow>
     token_type_str (type t) = [sq, CHR ''('', sq] \<and> \<not> exists t"
  by (auto simp: Token_no_payload_Inr exists_def get_def token_type_str_def
      token_type_str_switch_def)

lemma scenario_INT_42:
  "Token_with_payload f ln off len INT_tok ''42'' = Inr t \<Longrightarrow> exists t \<and> get t = ''42''"
  by (auto simp: Token_with_payload_Inr exists_def get_def)

lemma scenario_ENDFILE:
  "Token_no_payload f ln off len ENDFILE = Inr t \<Longrightarrow> is_endmarker t"
  by (auto simp: Token_no_payload_Inr is_endmarker_def)

text \<open>
  The readings of has_payload() in section 4.2 agree on every token that a constructor
  builds: the token has a payload exactly when the with-payload constructor built it.
\<close>

lemma exists_iff_payload_constructor:
  assumes "Token_no_payload f ln off len ty = Inr t \<or>
           Token_with_payload f ln off len ty v = Inr t"
  shows "exists t \<longleftrightarrow> Token_with_payload f ln off len ty v = Inr t"
  using assms
  by (auto simp: Token_no_payload_Inr Token_with_payload_Inr exists_def)



text \<open>
  Claim C3. The no-payload constructor rejects a category that requires a payload, STRING
  among them: the construction ends in a contract violation and builds no token, so none
  with an empty text in place of the payload.
\<close>

theorem no_payload_constructor_rejects:
  assumes "token_needs_payload ty"
  shows "Token_no_payload f ln off len ty = Inl ContractViolation \<and>
         (\<forall>t. Token_no_payload f ln off len ty \<noteq> Inr t)"
  using assms by (simp add: Token_no_payload_def)

theorem no_payload_constructor_rejects_witness:
  "token_needs_payload STRING \<and>
   Token_no_payload () 1 0 2 STRING = Inl ContractViolation \<and>
   (\<forall>t. Token_no_payload () 1 0 2 STRING \<noteq> Inr t)"
proof -
  have h: "token_needs_payload STRING"
    by (simp add: token_needs_payload_def)
  show ?thesis
    using h no_payload_constructor_rejects [OF h, of "()" 1 0 2] by simp
qed

subsection \<open>Observers\<close>

text \<open>
  Claim C4. \<^verbatim>\<open>is_endmarker()\<close> is true exactly when the category of the token is
  ENDLINE or ENDFILE.
\<close>

theorem is_endmarker_iff:
  "is_endmarker t \<longleftrightarrow> type t \<in> {ENDLINE, ENDFILE}"
  by (cases "type t") (simp_all add: is_endmarker_def)

text \<open>
  Claim C7. A token of category ID and a token of category STRING is content, whatever
  the grammar decides for the other content-bearing kinds.
\<close>

theorem is_content_ID_STRING:
  assumes "type t = ID \<or> type t = STRING"
  shows "is_content grammar t"
  using assms by (auto simp: is_content_def)

theorem is_content_ID_STRING_witness:
  "type \<lparr>location = \<lparr>file = (), line = 1, line_offset = 0, length_loc = 3\<rparr>,
          type = ID, value = ''foo''\<rparr> = ID \<and>
   is_content (\<lambda>_. False)
     \<lparr>location = \<lparr>file = (), line = 1, line_offset = 0, length_loc = 3\<rparr>,
          type = ID, value = ''foo''\<rparr> \<and>
   type \<lparr>location = \<lparr>file = (), line = 2, line_offset = 4, length_loc = 4\<rparr>,
          type = STRING, value = ''ab''\<rparr> = STRING \<and>
   is_content (\<lambda>_. False)
     \<lparr>location = \<lparr>file = (), line = 2, line_offset = 4, length_loc = 4\<rparr>,
          type = STRING, value = ''ab''\<rparr>"
  using is_content_ID_STRING
      [of "\<lparr>location = \<lparr>file = (), line = 1, line_offset = 0, length_loc = 3\<rparr>,
            type = ID, value = ''foo''\<rparr>" "\<lambda>_. False"]
    is_content_ID_STRING
      [of "\<lparr>location = \<lparr>file = (), line = 2, line_offset = 4, length_loc = 4\<rparr>,
            type = STRING, value = ''ab''\<rparr>" "\<lambda>_. False"]
  by simp

end
